theory Spec2Isabelle
  imports Main
begin

section \<open>Data model\<close>

text \<open>
  Exceptions of the source carry a message and an error code. The source throws
  \<open>ErrorCodes::LOGICAL_ERROR\<close>; the specification names the failure of a disk
  reservation \<open>InsufficientSpace\<close> and speaks of a transient I/O failure of the
  merge executor.
\<close>

datatype error_code = LOGICAL_ERROR | INSUFFICIENT_SPACE | IO_FAILURE

datatype exception = Exception (message: string) (code: error_code)

text \<open>
  A data part. The header only reads \<open>part->name\<close>; the range, the byte size and the
  partition key are the attributes the specification gives a part. The range is half
  open, as in the specification's scenarios \<open>[0,10), [10,20)\<close>.
\<close>

record part =
  name :: string
  range_begin :: nat
  range_end :: nat
  bytes :: nat
  partition_key :: nat

text \<open>
  The part set of the table: the active parts and the outdated ones that are still
  retained. Both collections are ordered by key in the program, so a set determines them.
\<close>

record part_set =
  active :: "part set"
  outdated :: "part set"

subsection \<open>DiskSpaceMonitor\<close>

record reservation =
  res_path :: string
  res_bytes :: nat

record disk_space_monitor =
  free_space :: "string \<Rightarrow> nat"
  outstanding :: "reservation list"

definition held :: "disk_space_monitor \<Rightarrow> string \<Rightarrow> nat" where
  "held m p = sum_list (map res_bytes (filter (\<lambda>r. res_path r = p) (outstanding m)))"

text \<open>
  Modelled from the spec: \<open>DiskSpaceMonitor::reserve\<close> and the release of a
  reservation (DiskSpaceMonitor.h is not among the sources). Section 4.4: the free space
  of the path, minus the bytes held by outstanding reservations on that path; the
  reservation fails with InsufficientSpace when the remainder is smaller than the
  request, and otherwise a reservation tracking path and bytes is outstanding. Release
  takes the hold away again.
\<close>

definition reserve ::
  "disk_space_monitor \<Rightarrow> string \<Rightarrow> nat \<Rightarrow> exception + (reservation \<times> disk_space_monitor)" where
  "reserve m p n =
     (let remainder = int (free_space m p) - int (held m p) in
      if remainder < int n
      then Inl (Exception ''Not enough free disk space to reserve'' INSUFFICIENT_SPACE)
      else (let r = \<lparr>res_path = p, res_bytes = n\<rparr>
            in Inr (r, m\<lparr>outstanding := r # outstanding m\<rparr>)))"

definition release :: "disk_space_monitor \<Rightarrow> reservation \<Rightarrow> disk_space_monitor" where
  "release m r = m\<lparr>outstanding := remove1 r (outstanding m)\<rparr>"

text \<open>
  \<open>ReservationPtr\<close> is an owning pointer that may be null: destroying it releases the
  reservation it points to, if any.
\<close>

definition release_ptr :: "reservation option \<Rightarrow> disk_space_monitor \<Rightarrow> disk_space_monitor" where
  "release_ptr rp m = (case rp of None \<Rightarrow> m | Some r \<Rightarrow> release m r)"

subsection \<open>StorageMergeTree\<close>

text \<open>
  The members of \<open>StorageMergeTree\<close> that the tagger and the merge step read or write,
  together with the process-wide disk space monitor and the messages written to the log.
\<close>

record storage =
  full_path :: string
  data :: part_set
  currently_merging :: "part set"
  partitioning :: bool
  monitor :: disk_space_monitor
  logged :: "(string \<times> exception) list"

record tagger =
  parts :: "part list"
  reserved_space :: "reservation option"

section \<open>CurrentlyMergingPartsTagger\<close>

text \<open>
  The loop of the constructor (lines 115 to 119): the first part of the group that is
  already in \<open>currently_merging\<close> raises.
\<close>

fun check_not_tagged :: "part list \<Rightarrow> part set \<Rightarrow> exception option" where
  "check_not_tagged [] cm = None"
| "check_not_tagged (p # ps) cm =
     (if p \<in> cm
      then Some (Exception (''Tagging alreagy tagged part '' @ name p @ ''. This is a bug.'')
                   LOGICAL_ERROR)
      else check_not_tagged ps cm)"

text \<open>
  The constructor (lines 110 to 121). The reservation comes first and may raise; then the
  loop; then the insertion of the whole group. An exception that leaves the constructor
  destroys the members built so far, so a reservation already held is released; the
  destructor of the tagger itself does not run.
\<close>

definition CurrentlyMergingPartsTagger_ctor ::
  "part list \<Rightarrow> nat \<Rightarrow> storage \<Rightarrow> (exception + tagger) \<times> storage" where
  "CurrentlyMergingPartsTagger_ctor ps total_size st =
     (case reserve (monitor st) (full_path st) total_size of
        Inl e \<Rightarrow> (Inl e, st)
      | Inr (r, m1) \<Rightarrow>
          (let st1 = st\<lparr>monitor := m1\<rparr> in
           case check_not_tagged ps (currently_merging st1) of
             Some e \<Rightarrow> (Inl e, st1\<lparr>monitor := release_ptr (Some r) (monitor st1)\<rparr>)
           | None \<Rightarrow>
               (Inr \<lparr>parts = ps, reserved_space = Some r\<rparr>,
                st1\<lparr>currently_merging := currently_merging st1 \<union> set ps\<rparr>)))"

text \<open>
  The loop of the destructor (lines 128 to 133). The set is changed in place, so the
  parts erased before a raise stay erased: the loop returns the set as it is when it
  stops.
\<close>

fun untag :: "part list \<Rightarrow> part set \<Rightarrow> exception option \<times> part set" where
  "untag [] cm = (None, cm)"
| "untag (p # ps) cm =
     (if p \<notin> cm
      then (Some (Exception (''Untagging already untagged part '' @ name p @ ''. This is a bug.'')
                    LOGICAL_ERROR), cm)
      else untag ps (cm - {p}))"

definition tryLogCurrentException :: "string \<Rightarrow> exception \<Rightarrow> storage \<Rightarrow> storage" where
  "tryLogCurrentException location e st = st\<lparr>logged := logged st @ [(location, e)]\<rparr>"

text \<open>
  The destructor (lines 123 to 139): the loop inside \<open>try\<close>, every exception caught and
  logged, and after the body the members are destroyed, which releases the reservation.
  The first component is the exception that leaves the destructor.
\<close>

definition CurrentlyMergingPartsTagger_dtor ::
  "tagger \<Rightarrow> storage \<Rightarrow> exception option \<times> storage" where
  "CurrentlyMergingPartsTagger_dtor t st =
     (let (thrown, cm') = untag (parts t) (currently_merging st);
          st1 = st\<lparr>currently_merging := cm'\<rparr>;
          st2 = (case thrown of
                   None \<Rightarrow> st1
                 | Some e \<Rightarrow> tryLogCurrentException ''~CurrentlyMergingPartsTagger'' e st1)
      in (None, st2\<lparr>monitor := release_ptr (reserved_space t) (monitor st2)\<rparr>))"

section \<open>The merge step\<close>

text \<open>
  The collaborators of the merge step are not among the sources and are taken as
  parameters: the selector \<open>select(activeParts, taggedParts, aggressive)\<close>, the merge
  executor, which produces the new part or fails, and the estimate of the bytes the
  merged part needs.
\<close>

type_synonym selector = "part set \<Rightarrow> part set \<Rightarrow> bool \<Rightarrow> part list option"

type_synonym executor = "part list \<Rightarrow> exception + part"

typedecl pool_context

text \<open>
  Modelled from the spec: the atomic swap of the part set (section 3 and 4.5; the part
  set lives in MergeTreeData, which is not among the sources). The new part becomes
  active and the old parts become outdated in one step.
\<close>

definition replace_parts :: "part list \<Rightarrow> part \<Rightarrow> part_set \<Rightarrow> part_set" where
  "replace_parts old new d =
     \<lparr>active = insert new (active d - set old), outdated = outdated d \<union> set old\<rparr>"

text \<open>
  Modelled from the spec: \<open>StorageMergeTree::merge\<close>, declared at line 159; its body is in
  StorageMergeTree.cpp, which is not among the sources. Section 4.5: ask the selector for
  a group; if there is none, "no work". Otherwise construct a tagger for the group; if
  that fails, "no work". Run the executor; on success swap the new part into the part
  set. The destructor of the tagger runs whether the executor succeeded or failed. A
  failure of the executor leaves the merge step as an exception.
\<close>

definition merge ::
  "selector \<Rightarrow> executor \<Rightarrow> (part list \<Rightarrow> nat) \<Rightarrow> bool \<Rightarrow> pool_context option \<Rightarrow> storage
     \<Rightarrow> (exception + bool) \<times> storage" where
  "merge select execute estimate aggressive pool_ctx st =
     (case select (active (data st)) (currently_merging st) aggressive of
        None \<Rightarrow> (Inr False, st)
      | Some g \<Rightarrow>
          (case CurrentlyMergingPartsTagger_ctor g (estimate g) st of
             (Inl e, st1) \<Rightarrow> (Inr False, st1)
           | (Inr t, st1) \<Rightarrow>
               (case execute (parts t) of
                  Inl e \<Rightarrow> (Inl e, snd (CurrentlyMergingPartsTagger_dtor t st1))
                | Inr new_part \<Rightarrow>
                    (let st2 = st1\<lparr>data := replace_parts (parts t) new_part (data st1)\<rparr>
                     in (Inr True, snd (CurrentlyMergingPartsTagger_dtor t st2))))))"

text \<open>
  \<open>optimize\<close> (lines 66 to 69) calls \<open>merge(true)\<close>; the second argument of \<open>merge\<close> takes
  its default, the null pointer.
\<close>

definition optimize ::
  "selector \<Rightarrow> executor \<Rightarrow> (part list \<Rightarrow> nat) \<Rightarrow> storage \<Rightarrow> (exception + bool) \<times> storage" where
  "optimize select execute estimate st = merge select execute estimate True None st"

text \<open>
  Modelled from the spec: \<open>StorageMergeTree::canMergeParts\<close>, declared at line 164; its
  body is in StorageMergeTree.cpp, which is not among the sources. Section 4.1: true iff
  the right part immediately follows the left one with no range gap, neither is tagged,
  and, when partitioning is enabled, both have the same partition key.
\<close>

definition canMergeParts :: "storage \<Rightarrow> part \<Rightarrow> part \<Rightarrow> bool" where
  "canMergeParts st left right =
     (if left \<in> currently_merging st \<or> right \<in> currently_merging st then False
      else if range_end left \<noteq> range_begin right then False
      else if partitioning st then partition_key left = partition_key right
      else True)"

section \<open>The states a table can reach\<close>

text \<open>
  A state of the scheduler: the storage and the taggers that are alive. It starts with
  nothing tagged. A tagger is constructed (and is alive if the constructor returned), a
  live tagger is destroyed, and every other step of the program leaves
  \<open>currently_merging\<close> alone, since only the tagger writes it.
\<close>

inductive reachable :: "storage \<Rightarrow> tagger list \<Rightarrow> bool" where
  init: "currently_merging st = {} \<Longrightarrow> reachable st []"
| tag: "reachable st ts \<Longrightarrow> CurrentlyMergingPartsTagger_ctor ps n st = (Inr t, st')
         \<Longrightarrow> reachable st' (t # ts)"
| tag_failed: "reachable st ts \<Longrightarrow> CurrentlyMergingPartsTagger_ctor ps n st = (Inl e, st')
         \<Longrightarrow> reachable st' ts"
| destroy: "reachable st ts \<Longrightarrow> t \<in> set ts \<Longrightarrow> CurrentlyMergingPartsTagger_dtor t st = (x, st')
         \<Longrightarrow> reachable st' (remove1 t ts)"
| other: "reachable st ts \<Longrightarrow> currently_merging st' = currently_merging st
         \<Longrightarrow> reachable st' ts"

text \<open>The number of live taggers whose group holds the part.\<close>

definition tag_count :: "tagger list \<Rightarrow> part \<Rightarrow> nat" where
  "tag_count ts p = length (filter (\<lambda>t. p \<in> set (parts t)) ts)"

text \<open>
  Modelled from the spec: a merge group, what the selector of section 4.1 returns (the
  selector is in MergeTreeDataMerger, which is not among the sources). Section 3: an
  ordered, contiguous run of at least two parts of the part set, each member adjacent to
  the next, none of them tagged.
\<close>

fun adjacent_run :: "part list \<Rightarrow> bool" where
  "adjacent_run (p # q # ps) = (range_end p = range_begin q \<and> adjacent_run (q # ps))"
| "adjacent_run ps = True"

definition is_merge_group :: "part set \<Rightarrow> part set \<Rightarrow> part list \<Rightarrow> bool" where
  "is_merge_group act tagged g \<longleftrightarrow>
     2 \<le> length g \<and> distinct g \<and> set g \<subseteq> act \<and> set g \<inter> tagged = {} \<and> adjacent_run g"

section \<open>A table with three parts\<close>

text \<open>
  The parts of the specification's scenario, covering \<open>[0,10)\<close>, \<open>[10,20)\<close> and
  \<open>[20,25)\<close>, the table that holds them with nothing tagged and 100 bytes free, the same
  table after the first two parts have been tagged for a merge of 80 bytes, after a
  group that lists the first part twice has been tagged, with only 10 bytes free, and
  with a single part.
\<close>

definition part_0_10 :: part where
  "part_0_10 = \<lparr>name = ''0_10'', range_begin = 0, range_end = 10, bytes = 40, partition_key = 1\<rparr>"

definition part_10_20 :: part where
  "part_10_20 = \<lparr>name = ''10_20'', range_begin = 10, range_end = 20, bytes = 40, partition_key = 1\<rparr>"

definition part_20_25 :: part where
  "part_20_25 = \<lparr>name = ''20_25'', range_begin = 20, range_end = 25, bytes = 5, partition_key = 1\<rparr>"

definition part_0_20 :: part where
  "part_0_20 = \<lparr>name = ''0_20'', range_begin = 0, range_end = 20, bytes = 80, partition_key = 1\<rparr>"

definition idle_storage :: storage where
  "idle_storage =
     \<lparr>full_path = ''/db/t/'',
      data = \<lparr>active = {part_0_10, part_10_20, part_20_25}, outdated = {}\<rparr>,
      currently_merging = {},
      partitioning = True,
      monitor = \<lparr>free_space = (\<lambda>p. 100), outstanding = []\<rparr>,
      logged = []\<rparr>"

definition tagger_0_20 :: tagger where
  "tagger_0_20 =
     \<lparr>parts = [part_0_10, part_10_20],
      reserved_space = Some \<lparr>res_path = ''/db/t/'', res_bytes = 80\<rparr>\<rparr>"

definition tagged_storage :: storage where
  "tagged_storage =
     idle_storage
       \<lparr>currently_merging := {part_0_10, part_10_20},
        monitor := \<lparr>free_space = (\<lambda>p. 100),
                    outstanding = [\<lparr>res_path = ''/db/t/'', res_bytes = 80\<rparr>]\<rparr>\<rparr>"

definition tagger_twice :: tagger where
  "tagger_twice =
     \<lparr>parts = [part_0_10, part_0_10, part_20_25],
      reserved_space = Some \<lparr>res_path = ''/db/t/'', res_bytes = 85\<rparr>\<rparr>"

definition twice_storage :: storage where
  "twice_storage =
     idle_storage
       \<lparr>currently_merging := {part_0_10, part_20_25},
        monitor := \<lparr>free_space = (\<lambda>p. 100),
                    outstanding = [\<lparr>res_path = ''/db/t/'', res_bytes = 85\<rparr>]\<rparr>\<rparr>"

definition full_storage :: storage where
  "full_storage = idle_storage\<lparr>monitor := \<lparr>free_space = (\<lambda>p. 10), outstanding = []\<rparr>\<rparr>"

definition single_storage :: storage where
  "single_storage = idle_storage\<lparr>data := \<lparr>active = {part_0_10}, outdated = {}\<rparr>\<rparr>"

text \<open>
  A selector that proposes the first two parts when both are active and untagged, an
  estimate that adds up the bytes of the group, an executor that fails and one that
  produces the merged part.
\<close>

definition select_first_pair :: selector where
  "select_first_pair act tagged aggressive =
     (if part_0_10 \<in> act \<and> part_10_20 \<in> act \<and> part_0_10 \<notin> tagged \<and> part_10_20 \<notin> tagged
      then Some [part_0_10, part_10_20] else None)"

definition total_bytes :: "part list \<Rightarrow> nat" where
  "total_bytes g = sum_list (map bytes g)"


definition execute_0_20 :: executor where
  "execute_0_20 g = Inr part_0_20"

section \<open>The loops of the tagger\<close>

lemma check_not_tagged_None: "check_not_tagged ps cm = None \<longleftrightarrow> set ps \<inter> cm = {}"
  by (induction ps) auto

lemma check_not_tagged_code: "check_not_tagged ps cm = Some e \<Longrightarrow> code e = LOGICAL_ERROR"
  by (induction ps) (auto split: if_splits)

lemma untag_lower: "cm - set ps \<subseteq> snd (untag ps cm)"
proof (induction ps arbitrary: cm)
  case Nil
  show ?case by simp
next
  case (Cons a ps)
  have "cm - set (a # ps) = (cm - {a}) - set ps" by auto
  with Cons [of "cm - {a}"] show ?case by auto
qed

lemma untag_ok_iff: "fst (untag ps cm) = None \<longleftrightarrow> distinct ps \<and> set ps \<subseteq> cm"
  by (induction ps arbitrary: cm) auto

lemma untag_ok_set: "fst (untag ps cm) = None \<Longrightarrow> snd (untag ps cm) = cm - set ps"
  by (induction ps arbitrary: cm) (auto split: if_splits)

lemma untag_append: "fst (untag xs cm) = None \<Longrightarrow> untag (xs @ ys) cm = untag ys (snd (untag xs cm))"
  by (induction xs arbitrary: cm) (auto split: if_splits)

section \<open>Reservation, constructor and destructor\<close>

lemma release_reserve: "reserve m p n = Inr (r, m1) \<Longrightarrow> release m1 r = m"
  by (auto simp: reserve_def release_def Let_def split: if_splits)

lemma reserve_failed_code: "reserve m p n = Inl e \<Longrightarrow> code e = INSUFFICIENT_SPACE"
  by (auto simp: reserve_def Let_def split: if_splits)

lemma reserve_outstanding:
  "reserve m p n = Inr (r, m1) \<Longrightarrow> outstanding m1 = r # outstanding m \<and> r = \<lparr>res_path = p, res_bytes = n\<rparr>"
  by (auto simp: reserve_def Let_def split: if_splits)

lemma ctor_failed_state:
  "CurrentlyMergingPartsTagger_ctor ps n st = (Inl e, st') \<Longrightarrow> st' = st"
  by (auto simp: CurrentlyMergingPartsTagger_ctor_def Let_def release_ptr_def release_reserve
      split: sum.splits option.splits prod.splits)

lemma ctor_success:
  "CurrentlyMergingPartsTagger_ctor ps n st = (Inr t, st') \<Longrightarrow>
     parts t = ps \<and> set ps \<inter> currently_merging st = {} \<and>
     currently_merging st' = currently_merging st \<union> set ps \<and>
     (\<exists>r m1. reserve (monitor st) (full_path st) n = Inr (r, m1) \<and> reserved_space t = Some r \<and>
        st' = st\<lparr>monitor := m1, currently_merging := currently_merging st \<union> set ps\<rparr>)"
  by (auto simp: CurrentlyMergingPartsTagger_ctor_def Let_def check_not_tagged_None
      split: sum.splits option.splits prod.splits)

lemma ctor_reserve_failed:
  "reserve (monitor st) (full_path st) n = Inl e \<Longrightarrow>
     CurrentlyMergingPartsTagger_ctor ps n st = (Inl e, st)"
  by (simp add: CurrentlyMergingPartsTagger_ctor_def)

lemma ctor_conflict:
  assumes "reserve (monitor st) (full_path st) n = Inr (r, m1)"
    and "q \<in> set ps" and "q \<in> currently_merging st"
  shows "\<exists>e. CurrentlyMergingPartsTagger_ctor ps n st = (Inl e, st) \<and> code e = LOGICAL_ERROR"
proof -
  from assms(2,3) have "check_not_tagged ps (currently_merging st) \<noteq> None"
    by (auto simp: check_not_tagged_None)
  then obtain e where e: "check_not_tagged ps (currently_merging st) = Some e"
    by blast
  have "st\<lparr>monitor := release m1 r\<rparr> = st"
    using release_reserve [OF assms(1)] by simp
  with assms(1) e have "CurrentlyMergingPartsTagger_ctor ps n st = (Inl e, st)"
    by (simp add: CurrentlyMergingPartsTagger_ctor_def Let_def release_ptr_def)
  with check_not_tagged_code [OF e] show ?thesis by blast
qed

lemma dtor_eq:
  "CurrentlyMergingPartsTagger_dtor t st =
     (None, (case fst (untag (parts t) (currently_merging st)) of
               None \<Rightarrow> st\<lparr>currently_merging := snd (untag (parts t) (currently_merging st))\<rparr>
             | Some e \<Rightarrow> tryLogCurrentException ''~CurrentlyMergingPartsTagger'' e
                 (st\<lparr>currently_merging := snd (untag (parts t) (currently_merging st))\<rparr>))
            \<lparr>monitor := release_ptr (reserved_space t) (monitor st)\<rparr>)"
  by (simp add: CurrentlyMergingPartsTagger_dtor_def Let_def tryLogCurrentException_def
      split: prod.splits option.splits)

lemma dtor_fst: "fst (CurrentlyMergingPartsTagger_dtor t st) = None"
  by (simp add: CurrentlyMergingPartsTagger_dtor_def Let_def split: prod.splits)

lemma dtor_cm: "currently_merging (snd (CurrentlyMergingPartsTagger_dtor t st)) = snd (untag (parts t) (currently_merging st))"
  by (simp add: CurrentlyMergingPartsTagger_dtor_def Let_def tryLogCurrentException_def split: prod.splits option.splits)

lemma dtor_monitor: "monitor (snd (CurrentlyMergingPartsTagger_dtor t st)) = release_ptr (reserved_space t) (monitor st)"
  by (simp add: CurrentlyMergingPartsTagger_dtor_def Let_def tryLogCurrentException_def split: prod.splits option.splits)

lemma dtor_data: "data (snd (CurrentlyMergingPartsTagger_dtor t st)) = data st"
  by (simp add: CurrentlyMergingPartsTagger_dtor_def Let_def tryLogCurrentException_def split: prod.splits option.splits)

lemma dtor_logged: "logged (snd (CurrentlyMergingPartsTagger_dtor t st)) =
   (case fst (untag (parts t) (currently_merging st)) of None \<Rightarrow> logged st
     | Some e \<Rightarrow> logged st @ [(''~CurrentlyMergingPartsTagger'', e)])"
  by (simp add: CurrentlyMergingPartsTagger_dtor_def Let_def tryLogCurrentException_def split: prod.splits option.splits)


lemma is_merge_group_distinct: "is_merge_group act tagged g \<Longrightarrow> distinct g"
  by (simp add: is_merge_group_def)

section \<open>The invariant of the reachable states\<close>

text \<open>
  In every reachable state no part is in the group of two live taggers, the group of
  every live tagger is inside \<open>currently_merging\<close>, and every live tagger holds a
  reservation.
\<close>

lemma tag_count_Cons:
  "tag_count (t # ts) p = (if p \<in> set (parts t) then 1 else 0) + tag_count ts p"
  by (simp add: tag_count_def)

lemma tag_count_zero: "(\<forall>t\<in>set ts. p \<notin> set (parts t)) \<Longrightarrow> tag_count ts p = 0"
  by (induction ts) (auto simp: tag_count_def)

lemma tag_count_pos: "t \<in> set ts \<Longrightarrow> p \<in> set (parts t) \<Longrightarrow> 1 \<le> tag_count ts p"
  by (induction ts) (auto simp: tag_count_def)

lemma tag_count_remove1:
  "t \<in> set ts \<Longrightarrow>
     tag_count ts p = (if p \<in> set (parts t) then 1 else 0) + tag_count (remove1 t ts) p"
  by (induction ts) (auto simp: tag_count_def)

lemma reachable_inv:
  "reachable st ts \<Longrightarrow>
     (\<forall>p. tag_count ts p \<le> 1) \<and>
     (\<forall>t\<in>set ts. set (parts t) \<subseteq> currently_merging st \<and> reserved_space t \<noteq> None)"
proof (induction rule: reachable.induct)
  case (init st)
  then show ?case by (simp add: tag_count_def)
next
  case (tag st ts ps n t st')
  note c = ctor_success [OF tag.hyps(2)]
  have "tag_count (t # ts) p \<le> 1" for p
  proof (cases "p \<in> set ps")
    case True
    with c have "p \<notin> currently_merging st" by blast
    with tag.IH have "\<forall>u\<in>set ts. p \<notin> set (parts u)" by blast
    then have "tag_count ts p = 0" by (rule tag_count_zero)
    then show ?thesis by (simp add: tag_count_Cons)
  next
    case False
    with c tag.IH show ?thesis by (simp add: tag_count_Cons)
  qed
  moreover have "\<forall>u\<in>set (t # ts). set (parts u) \<subseteq> currently_merging st' \<and> reserved_space u \<noteq> None"
    using c tag.IH by auto
  ultimately show ?case by blast
next
  case (tag_failed st ts ps n e st')
  from ctor_failed_state [OF tag_failed.hyps(2)] tag_failed.IH show ?case by simp
next
  case (destroy st ts t x st')
  have le: "tag_count (remove1 t ts) p \<le> 1" for p
  proof -
    have "tag_count (remove1 t ts) p \<le> tag_count ts p"
      using tag_count_remove1 [OF destroy.hyps(2), of p] by simp
    also have "\<dots> \<le> 1" using destroy.IH by blast
    finally show ?thesis .
  qed
  have cm': "currently_merging st' = snd (untag (parts t) (currently_merging st))"
    using dtor_cm [of t st] destroy.hyps(3) by simp
  have "set (parts u) \<subseteq> currently_merging st' \<and> reserved_space u \<noteq> None"
    if u: "u \<in> set (remove1 t ts)" for u
  proof -
    from u have u': "u \<in> set ts" using set_remove1_subset [of t ts] by blast
    have "q \<in> currently_merging st'" if q: "q \<in> set (parts u)" for q
    proof -
      from destroy.IH u' q have "q \<in> currently_merging st" by blast
      moreover have "q \<notin> set (parts t)"
      proof
        assume "q \<in> set (parts t)"
        then have "tag_count ts q = 1 + tag_count (remove1 t ts) q"
          using tag_count_remove1 [OF destroy.hyps(2), of q] by simp
        moreover have "1 \<le> tag_count (remove1 t ts) q"
          using u q by (rule tag_count_pos)
        moreover have "tag_count ts q \<le> 1" using destroy.IH by blast
        ultimately show False by simp
      qed
      ultimately show ?thesis
        using untag_lower [of "currently_merging st" "parts t"] cm' by blast
    qed
    with destroy.IH u' show ?thesis by blast
  qed
  with le show ?case by blast
next
  case (other st ts st')
  then show ?case by simp
qed

section \<open>The example table\<close>

lemmas example_defs = part_0_10_def part_10_20_def part_20_25_def part_0_20_def idle_storage_def
  tagger_0_20_def tagged_storage_def tagger_twice_def twice_storage_def full_storage_def
  single_storage_def

lemma ctor_idle:
  "CurrentlyMergingPartsTagger_ctor [part_0_10, part_10_20] 80 idle_storage =
     (Inr tagger_0_20, tagged_storage)"
  by (simp add: CurrentlyMergingPartsTagger_ctor_def reserve_def held_def Let_def example_defs)

lemma reachable_tagged: "reachable tagged_storage [tagger_0_20]"
proof -
  have "reachable idle_storage []"
    by (rule reachable.init) (simp add: idle_storage_def)
  then show ?thesis using ctor_idle by (rule reachable.tag)
qed

section \<open>Exclusive tagging\<close>

text \<open>
  C1, as amended. In every reachable state a part is in the group of at most one live
  tagger. Constructing a tagger for a group that holds a part already in
  \<open>currently_merging\<close> fails and leaves the state as it was: with LOGICAL_ERROR when the
  reservation, which is requested first, was granted, and with the failure of the
  reservation otherwise. The constructor and the destructor lead from reachable states to
  reachable states, so every tagging operation keeps the groups exclusive.
\<close>

theorem tagged_groups_exclusive:
  assumes "reachable st ts"
  shows "tag_count ts p \<le> 1 \<and>
    (q \<in> set ps \<and> q \<in> currently_merging st \<longrightarrow>
       (\<exists>e. CurrentlyMergingPartsTagger_ctor ps n st = (Inl e, st) \<and>
            code e = (if isl (reserve (monitor st) (full_path st) n)
                      then INSUFFICIENT_SPACE else LOGICAL_ERROR)))"
proof (intro conjI impI)
  from reachable_inv [OF assms] show "tag_count ts p \<le> 1" by blast
next
  assume q: "q \<in> set ps \<and> q \<in> currently_merging st"
  show "\<exists>e. CurrentlyMergingPartsTagger_ctor ps n st = (Inl e, st) \<and>
            code e = (if isl (reserve (monitor st) (full_path st) n)
                      then INSUFFICIENT_SPACE else LOGICAL_ERROR)"
  proof (cases "reserve (monitor st) (full_path st) n")
    case (Inl e)
    with ctor_reserve_failed [OF Inl] reserve_failed_code [OF Inl] show ?thesis by simp
  next
    case (Inr rm)
    obtain r m1 where "rm = (r, m1)" by (cases rm)
    with Inr ctor_conflict [of st n r m1 q ps] q show ?thesis by simp
  qed
qed

text \<open>
  The table with the first two parts tagged: a tagger for the second and third part,
  asking for 5 bytes, fails with LOGICAL_ERROR.
\<close>

theorem tagged_groups_exclusive_witness:
  "reachable tagged_storage [tagger_0_20] \<and> tag_count [tagger_0_20] part_10_20 \<le> 1 \<and>
   part_10_20 \<in> set [part_10_20, part_20_25] \<and> part_10_20 \<in> currently_merging tagged_storage \<and>
   (\<exists>e. CurrentlyMergingPartsTagger_ctor [part_10_20, part_20_25] 5 tagged_storage
           = (Inl e, tagged_storage) \<and> code e = LOGICAL_ERROR)"
proof -
  have g: "\<not> isl (reserve (monitor tagged_storage) (full_path tagged_storage) 5)"
    by (simp add: reserve_def held_def Let_def example_defs)
  have m: "part_10_20 \<in> set [part_10_20, part_20_25] \<and> part_10_20 \<in> currently_merging tagged_storage"
    by (simp add: tagged_storage_def)
  from tagged_groups_exclusive [OF reachable_tagged, of part_10_20 part_10_20 "[part_10_20, part_20_25]" 5] g m
  show ?thesis using reachable_tagged by simp
qed

text \<open>
  C1 as stated fails in the same reachable state when the new group asks for 45 bytes:
  80 of the 100 bytes are held, the reservation fails first, and the constructor fails
  with INSUFFICIENT_SPACE although the second part is tagged.
\<close>

theorem conflict_on_full_disk_counterexample:
  "reachable tagged_storage [tagger_0_20] \<and>
   part_10_20 \<in> set [part_10_20, part_20_25] \<and> part_10_20 \<in> currently_merging tagged_storage \<and>
   fst (CurrentlyMergingPartsTagger_ctor [part_10_20, part_20_25] 45 tagged_storage)
     = Inl (Exception ''Not enough free disk space to reserve'' INSUFFICIENT_SPACE)"
proof -
  have "fst (CurrentlyMergingPartsTagger_ctor [part_10_20, part_20_25] 45 tagged_storage)
     = Inl (Exception ''Not enough free disk space to reserve'' INSUFFICIENT_SPACE)"
    by (simp add: CurrentlyMergingPartsTagger_ctor_def reserve_def held_def Let_def example_defs)
  moreover have "part_10_20 \<in> currently_merging tagged_storage"
    by (simp add: tagged_storage_def)
  ultimately show ?thesis using reachable_tagged by simp
qed

section \<open>Failure of the reservation\<close>

text \<open>
  C3. The reservation is requested first: when it fails, the constructor fails with that
  exception, whose code is INSUFFICIENT_SPACE, whatever the group is, and the state is
  unchanged, so no part has been inserted into \<open>currently_merging\<close>. A merge step whose
  selected group needs that reservation returns "no work" and leaves the state unchanged.
\<close>

theorem reservation_failure_tags_nothing:
  assumes "reserve (monitor st) (full_path st) n = Inl e"
  shows "CurrentlyMergingPartsTagger_ctor ps n st = (Inl e, st) \<and> code e = INSUFFICIENT_SPACE \<and>
    (select (active (data st)) (currently_merging st) aggressive = Some g \<and> estimate g = n \<longrightarrow>
       merge select execute estimate aggressive pool_ctx st = (Inr False, st))"
  using assms ctor_reserve_failed [OF assms] reserve_failed_code [OF assms]
  by (simp add: merge_def)

text \<open>With 10 bytes free, a group that needs 45 bytes is not tagged and not merged.\<close>

theorem reservation_failure_tags_nothing_witness:
  "CurrentlyMergingPartsTagger_ctor [part_10_20, part_20_25] 45 full_storage
     = (Inl (Exception ''Not enough free disk space to reserve'' INSUFFICIENT_SPACE), full_storage) \<and>
   merge (\<lambda>act tagged aggressive. Some [part_10_20, part_20_25]) execute_0_20 total_bytes
       False None full_storage = (Inr False, full_storage)"
proof -
  have res: "reserve (monitor full_storage) (full_path full_storage) 45
               = Inl (Exception ''Not enough free disk space to reserve'' INSUFFICIENT_SPACE)"
    by (simp add: reserve_def held_def Let_def example_defs)
  have est: "total_bytes [part_10_20, part_20_25] = 45"
    by (simp add: total_bytes_def example_defs)
  from reservation_failure_tags_nothing [OF res, of "[part_10_20, part_20_25]"
      "\<lambda>act tagged aggressive. Some [part_10_20, part_20_25]" False "[part_10_20, part_20_25]"
      total_bytes execute_0_20 None] est
  show ?thesis by simp
qed

text \<open>
  C9. When the reservation has been granted and some member of the group is already
  tagged, the constructor fails with LOGICAL_ERROR. The reservation was outstanding after
  the request, is released when the exception leaves the constructor, which gives the
  monitor back as it was, and \<open>currently_merging\<close> is as it was: the whole state is
  unchanged.
\<close>

theorem conflict_releases_reservation:
  assumes "reserve (monitor st) (full_path st) n = Inr (r, m1)"
    and "q \<in> set ps" and "q \<in> currently_merging st"
  shows "outstanding m1 = r # outstanding (monitor st) \<and>
    release_ptr (Some r) m1 = monitor st \<and>
    (\<exists>e. CurrentlyMergingPartsTagger_ctor ps n st = (Inl e, st) \<and> code e = LOGICAL_ERROR)"
  using reserve_outstanding [OF assms(1)] release_reserve [OF assms(1)] ctor_conflict [OF assms]
  by (simp add: release_ptr_def)

text \<open>
  With the first two parts tagged, a tagger for the third and the second part fails with
  LOGICAL_ERROR; the third part, checked first, has not been inserted.
\<close>

theorem conflict_releases_reservation_witness:
  "\<exists>e. CurrentlyMergingPartsTagger_ctor [part_20_25, part_10_20] 5 tagged_storage
         = (Inl e, tagged_storage) \<and> code e = LOGICAL_ERROR"
proof -
  have res: "reserve (monitor tagged_storage) (full_path tagged_storage) 5
             = Inr (\<lparr>res_path = ''/db/t/'', res_bytes = 5\<rparr>,
                    \<lparr>free_space = (\<lambda>p. 100),
                     outstanding = [\<lparr>res_path = ''/db/t/'', res_bytes = 5\<rparr>,
                                    \<lparr>res_path = ''/db/t/'', res_bytes = 80\<rparr>]\<rparr>)"
    by (simp add: reserve_def held_def Let_def example_defs)
  have q: "part_10_20 \<in> set [part_20_25, part_10_20]" by simp
  have t: "part_10_20 \<in> currently_merging tagged_storage" by (simp add: tagged_storage_def)
  from conflict_releases_reservation [OF res q t] show ?thesis by blast
qed

section \<open>Destruction\<close>

text \<open>
  C4. For a live tagger in a reachable state whose group lists no part twice, as every
  merge group does, the destructor removes all members of the group from
  \<open>currently_merging\<close>, releases the reservation the tagger holds, logs nothing and lets
  no exception escape. This holds on every path from construction to destruction,
  whatever the steps in between did to the rest of the state: the part set after a
  finished merge, or the unchanged one after a failed merge execution. For every tagger
  and every state no exception leaves the destructor, the reservation is released, and an
  exception raised by the loop is logged. The lock of line 127 is taken inside the \<open>try\<close>
  block and given back when the block is left; in a sequential model holding it changes
  nothing.
\<close>

theorem destruction_untags_group:
  assumes "reachable st ts" and "t \<in> set ts" and "distinct (parts t)"
  shows "CurrentlyMergingPartsTagger_dtor t st =
           (None, st\<lparr>currently_merging := currently_merging st - set (parts t),
                     monitor := release_ptr (reserved_space t) (monitor st)\<rparr>) \<and>
    set (parts t) \<inter> currently_merging (snd (CurrentlyMergingPartsTagger_dtor t st)) = {} \<and>
    (\<exists>r. reserved_space t = Some r \<and>
         monitor (snd (CurrentlyMergingPartsTagger_dtor t st)) = release (monitor st) r) \<and>
    (\<forall>st'. currently_merging st' = currently_merging st \<longrightarrow>
       CurrentlyMergingPartsTagger_dtor t st' =
         (None, st'\<lparr>currently_merging := currently_merging st - set (parts t),
                    monitor := release_ptr (reserved_space t) (monitor st')\<rparr>)) \<and>
    (\<forall>u s. fst (CurrentlyMergingPartsTagger_dtor u s) = None \<and>
       monitor (snd (CurrentlyMergingPartsTagger_dtor u s))
         = release_ptr (reserved_space u) (monitor s) \<and>
       (\<forall>e. fst (untag (parts u) (currently_merging s)) = Some e \<longrightarrow>
          logged (snd (CurrentlyMergingPartsTagger_dtor u s)) =
            logged s @ [(''~CurrentlyMergingPartsTagger'', e)]))"
proof -
  have full: "CurrentlyMergingPartsTagger_dtor t st' =
         (None, st'\<lparr>currently_merging := currently_merging st - set (parts t),
                    monitor := release_ptr (reserved_space t) (monitor st')\<rparr>)"
    if eq: "currently_merging st' = currently_merging st" for st'
  proof -
    from assms(1) eq have "reachable st' ts" by (rule reachable.other)
    from reachable_inv [OF this] assms(2)
    have "set (parts t) \<subseteq> currently_merging st'" by blast
    with assms(3) have ok: "fst (untag (parts t) (currently_merging st')) = None"
      by (simp add: untag_ok_iff)
    from untag_ok_set [OF ok] ok eq show ?thesis by (simp add: dtor_eq)
  qed
  from full [of st] have 1: "CurrentlyMergingPartsTagger_dtor t st =
           (None, st\<lparr>currently_merging := currently_merging st - set (parts t),
                     monitor := release_ptr (reserved_space t) (monitor st)\<rparr>)"
    by simp
  then have 2: "set (parts t) \<inter> currently_merging (snd (CurrentlyMergingPartsTagger_dtor t st)) = {}"
    by auto
  from reachable_inv [OF assms(1)] assms(2) obtain r where r: "reserved_space t = Some r"
    by blast
  then have 3: "\<exists>r. reserved_space t = Some r \<and>
         monitor (snd (CurrentlyMergingPartsTagger_dtor t st)) = release (monitor st) r"
    by (simp add: dtor_monitor release_ptr_def)
  have 5: "\<forall>u s. fst (CurrentlyMergingPartsTagger_dtor u s) = None \<and>
       monitor (snd (CurrentlyMergingPartsTagger_dtor u s))
         = release_ptr (reserved_space u) (monitor s) \<and>
       (\<forall>e. fst (untag (parts u) (currently_merging s)) = Some e \<longrightarrow>
          logged (snd (CurrentlyMergingPartsTagger_dtor u s)) =
            logged s @ [(''~CurrentlyMergingPartsTagger'', e)])"
    by (simp add: dtor_fst dtor_monitor dtor_logged)
  from 1 2 3 full 5 show ?thesis by blast
qed

text \<open>
  The tagger of the first two parts, which form a merge group: destroying it gives back
  the idle table, also after the merged part has been swapped into the part set.
\<close>

theorem destruction_untags_group_witness:
  "CurrentlyMergingPartsTagger_dtor tagger_0_20 tagged_storage = (None, idle_storage) \<and>
   CurrentlyMergingPartsTagger_dtor tagger_0_20
       (tagged_storage\<lparr>data := \<lparr>active = {part_0_20, part_20_25},
                                 outdated = {part_0_10, part_10_20}\<rparr>\<rparr>)
     = (None, idle_storage\<lparr>data := \<lparr>active = {part_0_20, part_20_25},
                                      outdated = {part_0_10, part_10_20}\<rparr>\<rparr>)"
proof -
  let ?d = "\<lparr>active = {part_0_20, part_20_25}, outdated = {part_0_10, part_10_20}\<rparr>"
  have t: "tagger_0_20 \<in> set [tagger_0_20]" by simp
  have "is_merge_group (active (data idle_storage)) (currently_merging idle_storage)
          (parts tagger_0_20)"
    by (simp add: is_merge_group_def example_defs)
  then have d: "distinct (parts tagger_0_20)" by (rule is_merge_group_distinct)
  note w = destruction_untags_group [OF reachable_tagged t d]
  have a: "tagged_storage\<lparr>currently_merging := currently_merging tagged_storage - set (parts tagger_0_20),
          monitor := release_ptr (reserved_space tagger_0_20) (monitor tagged_storage)\<rparr>
        = idle_storage"
    by (simp add: release_ptr_def release_def example_defs)
  have b: "(tagged_storage\<lparr>data := ?d\<rparr>)
          \<lparr>currently_merging := currently_merging tagged_storage - set (parts tagger_0_20),
           monitor := release_ptr (reserved_space tagger_0_20)
                        (monitor (tagged_storage\<lparr>data := ?d\<rparr>))\<rparr>
        = idle_storage\<lparr>data := ?d\<rparr>"
    by (simp add: release_ptr_def release_def example_defs)
  have c: "currently_merging (tagged_storage\<lparr>data := ?d\<rparr>) = currently_merging tagged_storage"
    by simp
  from w have 1: "CurrentlyMergingPartsTagger_dtor tagger_0_20 tagged_storage = (None, idle_storage)"
    using a by simp
  from w c have "CurrentlyMergingPartsTagger_dtor tagger_0_20 (tagged_storage\<lparr>data := ?d\<rparr>) =
      (None, (tagged_storage\<lparr>data := ?d\<rparr>)
          \<lparr>currently_merging := currently_merging tagged_storage - set (parts tagger_0_20),
           monitor := release_ptr (reserved_space tagger_0_20)
                        (monitor (tagged_storage\<lparr>data := ?d\<rparr>))\<rparr>)"
    by blast
  with b have 2: "CurrentlyMergingPartsTagger_dtor tagger_0_20 (tagged_storage\<lparr>data := ?d\<rparr>)
     = (None, idle_storage\<lparr>data := ?d\<rparr>)"
    by simp
  from 1 2 show ?thesis by blast
qed

text \<open>
  C10. When the loop of the destructor has erased the members \<open>xs\<close> and finds the next
  member \<open>p\<close> absent, it stops: \<open>currently_merging\<close> has lost the members of \<open>xs\<close> and
  nothing else, so a later member that still was in the set and is not among \<open>xs\<close>
  stays in it. The exception is logged, none escapes, and the reservation is released.
\<close>

theorem destruction_stops_at_absent_part:
  assumes "parts t = xs @ p # ys"
    and "fst (untag xs (currently_merging st)) = None"
    and "p \<notin> snd (untag xs (currently_merging st))"
  shows "CurrentlyMergingPartsTagger_dtor t st =
      (None, st\<lparr>currently_merging := currently_merging st - set xs,
                logged := logged st @ [(''~CurrentlyMergingPartsTagger'',
                   Exception (''Untagging already untagged part '' @ name p @ ''. This is a bug.'')
                     LOGICAL_ERROR)],
                monitor := release_ptr (reserved_space t) (monitor st)\<rparr>) \<and>
    (\<forall>q\<in>set ys. q \<notin> set xs \<longrightarrow> q \<in> currently_merging st \<longrightarrow>
       q \<in> currently_merging (snd (CurrentlyMergingPartsTagger_dtor t st)))"
proof -
  let ?cm = "currently_merging st"
  have s: "snd (untag xs ?cm) = ?cm - set xs"
    using assms(2) by (rule untag_ok_set)
  have "untag (parts t) ?cm = untag (p # ys) (?cm - set xs)"
    using untag_append [OF assms(2), of "p # ys"] assms(1) s by simp
  also have "\<dots> = (Some (Exception (''Untagging already untagged part '' @ name p @ ''. This is a bug.'')
                     LOGICAL_ERROR), ?cm - set xs)"
    using assms(3) s by simp
  finally have u: "untag (parts t) ?cm =
     (Some (Exception (''Untagging already untagged part '' @ name p @ ''. This is a bug.'')
                     LOGICAL_ERROR), ?cm - set xs)" .
  have d: "CurrentlyMergingPartsTagger_dtor t st =
      (None, st\<lparr>currently_merging := currently_merging st - set xs,
                logged := logged st @ [(''~CurrentlyMergingPartsTagger'',
                   Exception (''Untagging already untagged part '' @ name p @ ''. This is a bug.'')
                     LOGICAL_ERROR)],
                monitor := release_ptr (reserved_space t) (monitor st)\<rparr>)"
    by (simp add: dtor_eq u tryLogCurrentException_def)
  show ?thesis
    by (simp add: d)
qed

text \<open>
  The group with the first part twice and then the third part: the second occurrence is
  found absent, the third part stays tagged, and the reservation is released.
\<close>

theorem destruction_stops_at_absent_part_witness:
  "currently_merging (snd (CurrentlyMergingPartsTagger_dtor tagger_twice twice_storage))
     = {part_20_25} \<and>
   fst (CurrentlyMergingPartsTagger_dtor tagger_twice twice_storage) = None \<and>
   monitor (snd (CurrentlyMergingPartsTagger_dtor tagger_twice twice_storage))
     = monitor idle_storage"
proof -
  have p: "parts tagger_twice = [part_0_10] @ part_0_10 # [part_20_25]"
    by (simp add: tagger_twice_def)
  have ok: "fst (untag [part_0_10] (currently_merging twice_storage)) = None"
    by (simp add: example_defs)
  have absent: "part_0_10 \<notin> snd (untag [part_0_10] (currently_merging twice_storage))"
    by (simp add: example_defs)
  have cm: "currently_merging twice_storage - set [part_0_10] = {part_20_25}"
    by (auto simp: example_defs)
  have m: "release_ptr (reserved_space tagger_twice) (monitor twice_storage) = monitor idle_storage"
    by (simp add: release_ptr_def release_def example_defs)
  from destruction_stops_at_absent_part [OF p ok absent] cm m show ?thesis by simp
qed

section \<open>The merge step\<close>







text \<open>
  C7. When the selector returns no group, the merge step returns "no work" and the state,
  so the part set and \<open>currently_merging\<close> too, is exactly as before. A selector whose
  groups are merge groups returns none when the table has at most one active part or
  when every active part is tagged.
\<close>

theorem merge_without_group_is_no_work:
  "(select (active (data st)) (currently_merging st) aggressive = None \<longrightarrow>
      merge select execute estimate aggressive pool_ctx st = (Inr False, st)) \<and>
   ((\<forall>g. select (active (data st)) (currently_merging st) aggressive = Some g \<longrightarrow>
          is_merge_group (active (data st)) (currently_merging st) g) \<and>
    ((\<exists>p. active (data st) \<subseteq> {p}) \<or> active (data st) \<subseteq> currently_merging st) \<longrightarrow>
      merge select execute estimate aggressive pool_ctx st = (Inr False, st))"
proof (intro conjI impI)
  assume "select (active (data st)) (currently_merging st) aggressive = None"
  then show "merge select execute estimate aggressive pool_ctx st = (Inr False, st)"
    by (simp add: merge_def)
next
  assume a: "(\<forall>g. select (active (data st)) (currently_merging st) aggressive = Some g \<longrightarrow>
          is_merge_group (active (data st)) (currently_merging st) g) \<and>
    ((\<exists>p. active (data st) \<subseteq> {p}) \<or> active (data st) \<subseteq> currently_merging st)"
  have "\<not> is_merge_group (active (data st)) (currently_merging st) g" for g
  proof
    assume g: "is_merge_group (active (data st)) (currently_merging st) g"
    then obtain x y zs where xy: "g = x # y # zs"
      by (cases g; cases "tl g") (auto simp: is_merge_group_def)
    from g xy have "x \<noteq> y" "x \<in> active (data st)" "y \<in> active (data st)"
      "x \<notin> currently_merging st"
      by (auto simp: is_merge_group_def)
    with a show False by blast
  qed
  with a have "select (active (data st)) (currently_merging st) aggressive = None"
    by (cases "select (active (data st)) (currently_merging st) aggressive") auto
  then show "merge select execute estimate aggressive pool_ctx st = (Inr False, st)"
    by (simp add: merge_def)
qed

text \<open>
  The table with a single part, and the table whose first two parts are tagged, with the
  selector that proposes only those two.
\<close>

theorem merge_without_group_is_no_work_witness:
  "merge select_first_pair execute_0_20 total_bytes False None single_storage
     = (Inr False, single_storage) \<and>
   merge select_first_pair execute_0_20 total_bytes True None tagged_storage
     = (Inr False, tagged_storage)"
proof -
  have 1: "(\<forall>g. select_first_pair (active (data single_storage)) (currently_merging single_storage) False
               = Some g \<longrightarrow> is_merge_group (active (data single_storage))
                    (currently_merging single_storage) g) \<and>
        ((\<exists>p. active (data single_storage) \<subseteq> {p}) \<or>
          active (data single_storage) \<subseteq> currently_merging single_storage)"
    by (simp add: select_first_pair_def example_defs)
  have 2: "select_first_pair (active (data tagged_storage)) (currently_merging tagged_storage) True
             = None"
    by (simp add: select_first_pair_def example_defs)
  from merge_without_group_is_no_work [of select_first_pair single_storage False execute_0_20 total_bytes None] 1
    merge_without_group_is_no_work [of select_first_pair tagged_storage True execute_0_20 total_bytes None] 2
  show ?thesis by blast
qed

text \<open>
  C6. \<open>optimize\<close> is the merge step with \<open>aggressive = true\<close> and no pool context: the same
  result and the same state. It returns true only when the part set has been replaced by
  the swap of the selected group for the new part, and the part set is unchanged
  otherwise.
\<close>

theorem optimize_is_aggressive_merge:
  "optimize select execute estimate st = merge select execute estimate True None st \<and>
   (fst (optimize select execute estimate st) = Inr True \<longrightarrow>
      (\<exists>g new. select (active (data st)) (currently_merging st) True = Some g \<and>
         execute g = Inr new \<and>
         data (snd (optimize select execute estimate st)) = replace_parts g new (data st))) \<and>
   (fst (optimize select execute estimate st) \<noteq> Inr True \<longrightarrow>
      data (snd (optimize select execute estimate st)) = data st)"
proof -
  let ?sel = "select (active (data st)) (currently_merging st) True"
  let ?o = "optimize select execute estimate st"
  have eq: "?o = merge select execute estimate True None st" by (simp add: optimize_def)
  have "(fst ?o = Inr True \<longrightarrow>
      (\<exists>g new. ?sel = Some g \<and> execute g = Inr new \<and>
         data (snd ?o) = replace_parts g new (data st))) \<and>
   (fst ?o \<noteq> Inr True \<longrightarrow> data (snd ?o) = data st)"
  proof (cases ?sel)
    case None
    then show ?thesis by (simp add: optimize_def merge_def)
  next
    case (Some g)
    show ?thesis
    proof (cases "CurrentlyMergingPartsTagger_ctor g (estimate g) st")
      case (Pair res st1)
      show ?thesis
      proof (cases res)
        case (Inl e)
        with Pair Some ctor_failed_state [of g "estimate g" st e st1] show ?thesis
          by (simp add: optimize_def merge_def)
      next
        case (Inr t)
        with Pair have c: "CurrentlyMergingPartsTagger_ctor g (estimate g) st = (Inr t, st1)"
          by simp
        from ctor_success [OF c] have t: "parts t = g" and d1: "data st1 = data st" by auto
        show ?thesis
        proof (cases "execute g")
          case (Inl e)
          with Some c t d1 show ?thesis
            by (simp add: optimize_def merge_def dtor_data)
        next
          case ex: (Inr new)
          with Some c t d1 show ?thesis
            by (simp add: optimize_def merge_def Let_def dtor_data)
        qed
      qed
    qed
  qed
  with eq show ?thesis by blast
qed

text \<open>
  On the idle table \<open>optimize\<close> merges the first two parts: it returns true, the merged
  part and the third part are active, the first two are outdated.
\<close>

theorem optimize_is_aggressive_merge_witness:
  "fst (optimize select_first_pair execute_0_20 total_bytes idle_storage) = Inr True \<and>
   data (snd (optimize select_first_pair execute_0_20 total_bytes idle_storage))
     = \<lparr>active = {part_0_20, part_20_25}, outdated = {part_0_10, part_10_20}\<rparr>"
proof -
  let ?o = "optimize select_first_pair execute_0_20 total_bytes idle_storage"
  have sel: "select_first_pair (active (data idle_storage)) (currently_merging idle_storage) True
               = Some [part_0_10, part_10_20]"
    by (simp add: select_first_pair_def idle_storage_def)
  have est: "total_bytes [part_0_10, part_10_20] = 80"
    by (simp add: total_bytes_def example_defs)
  note c = optimize_is_aggressive_merge [of select_first_pair execute_0_20 total_bytes idle_storage]
  have r: "fst ?o = Inr True"
    using c sel est ctor_idle
    by (simp add: merge_def execute_0_20_def tagger_0_20_def Let_def)
  with c sel have "data (snd ?o) = replace_parts [part_0_10, part_10_20] part_0_20 (data idle_storage)"
    by (auto simp: execute_0_20_def)
  also have "\<dots> = \<lparr>active = {part_0_20, part_20_25}, outdated = {part_0_10, part_10_20}\<rparr>"
    by (auto simp: replace_parts_def example_defs)
  finally show ?thesis using r by simp
qed

section \<open>canMergeParts\<close>

text \<open>
  C8. \<open>canMergeParts\<close> is true if and only if the range of the right part begins where
  the range of the left part ends, neither part is in \<open>currently_merging\<close>, and, when
  partitioning is enabled, both have the same partition key. It is false for a gap, for
  an overlap and for a tagged operand.
\<close>

theorem canMergeParts_iff:
  "(canMergeParts st l r \<longleftrightarrow>
      range_end l = range_begin r \<and> l \<notin> currently_merging st \<and> r \<notin> currently_merging st \<and>
      (partitioning st \<longrightarrow> partition_key l = partition_key r)) \<and>
   (range_end l < range_begin r \<longrightarrow> \<not> canMergeParts st l r) \<and>
   (range_begin r < range_end l \<longrightarrow> \<not> canMergeParts st l r) \<and>
   (l \<in> currently_merging st \<or> r \<in> currently_merging st \<longrightarrow> \<not> canMergeParts st l r)"
  by (auto simp: canMergeParts_def)

text \<open>
  Adjacent untagged parts of one partition can be merged; parts with a gap, parts in the
  wrong order, which overlap, and a tagged part cannot.
\<close>

theorem canMergeParts_iff_witness:
  "canMergeParts idle_storage part_0_10 part_10_20 \<and>
   \<not> canMergeParts idle_storage part_0_10 part_20_25 \<and>
   \<not> canMergeParts idle_storage part_10_20 part_0_10 \<and>
   \<not> canMergeParts tagged_storage part_10_20 part_20_25"
proof -
  have a: "range_end part_0_10 = range_begin part_10_20 \<and>
      part_0_10 \<notin> currently_merging idle_storage \<and> part_10_20 \<notin> currently_merging idle_storage \<and>
      (partitioning idle_storage \<longrightarrow> partition_key part_0_10 = partition_key part_10_20)"
    by (simp add: example_defs)
  have b: "range_end part_0_10 < range_begin part_20_25" by (simp add: example_defs)
  have c: "range_begin part_0_10 < range_end part_10_20" by (simp add: example_defs)
  have d: "part_10_20 \<in> currently_merging tagged_storage \<or> part_20_25 \<in> currently_merging tagged_storage"
    by (simp add: example_defs)
  from canMergeParts_iff [of idle_storage part_0_10 part_10_20] a
    canMergeParts_iff [of idle_storage part_0_10 part_20_25] b
    canMergeParts_iff [of idle_storage part_10_20 part_0_10] c
    canMergeParts_iff [of tagged_storage part_10_20 part_20_25] d
  show ?thesis by blast
qed

end
